theory Spec2Isabelle
  imports Main
begin

section \<open>Table schema\<close>

text \<open>
  The three SQLAlchemy models of \<open>main.py\<close>. Every column becomes a field; the field
  names carry a prefix because the models share column names. Primary keys are Python
  integers. The foreign-key columns are declared without \<open>nullable=False\<close>, so they
  hold an integer or \<open>NULL\<close>.
\<close>

record blog_post =
  bp_id :: int
  bp_title :: string
  bp_subtitle :: string
  bp_date :: string
  bp_body :: string
  bp_img_url :: string
  bp_user_id :: "int option"

record user =
  u_id :: int
  u_email :: string
  u_name :: string
  u_password :: string

record comment =
  c_id :: int
  c_comment :: string
  c_user_id :: "int option"
  c_post_id :: "int option"

section \<open>Requests, responses and the application state\<close>

datatype http_method = GET | POST

text \<open>The submitted fields of the four WTForms classes, as the handlers read them.\<close>

record register_form =
  rf_name :: string
  rf_email :: string
  rf_password :: string

record login_form =
  lf_email :: string
  lf_password :: string

record comment_form =
  cf_comment :: string

record post_form =
  pf_title :: string
  pf_subtitle :: string
  pf_img_url :: string
  pf_body :: string

text \<open>
  The collaborators \<open>main.py\<close> imports and does not define: the validators of
  \<open>forms.py\<close>, werkzeug's password hashing and the clock. The handlers take them as
  parameters.
\<close>

record env =
  validate_register :: "register_form \<Rightarrow> bool"
  validate_login :: "login_form \<Rightarrow> bool"
  validate_comment :: "comment_form \<Rightarrow> bool"
  validate_post :: "post_form \<Rightarrow> bool"
  generate_password_hash :: "string \<Rightarrow> string"
  check_password_hash :: "string \<Rightarrow> string \<Rightarrow> bool"
  today :: string

datatype endpoint = To_get_all_posts | To_login | To_show_post int

datatype page =
    Index_page "blog_post list"
  | Register_page
  | Login_page
  | Post_page "blog_post option" "comment list"
  | About_page
  | Contact_page
  | Make_post_page post_form

text \<open>Exceptions that no handler catches; Flask answers them with status 500.\<close>

datatype exn = AttributeError | IntegrityError | UnmappedInstanceError

datatype response =
    Render page
  | Redirect endpoint
  | Abort nat
  | Fault exn

fun status :: "response \<Rightarrow> nat" where
  "status (Render _) = 200"
| "status (Redirect _) = 302"
| "status (Abort n) = n"
| "status (Fault _) = 500"

text \<open>
  The database tables in insertion order, and the session of the one client that is
  modelled: the identifier Flask-Login keeps under \<open>_user_id\<close> and the flashed
  messages.
\<close>

record state =
  users :: "user list"
  blog_posts :: "blog_post list"
  comments :: "comment list"
  session_user_id :: "int option"
  flashes :: "string list"

definition init_state :: state where
  "init_state = \<lparr>users = [], blog_posts = [], comments = [],
                  session_user_id = None, flashes = []\<rparr>"

section \<open>Persistence\<close>

text \<open>
  An integer primary key: the store assigns one more than the largest key of the table,
  and 1 in an empty table.
\<close>

definition next_id :: "int list \<Rightarrow> int" where
  "next_id ids = (case ids of [] \<Rightarrow> 1 | i # is \<Rightarrow> fold max is i + 1)"

definition User_query_get :: "state \<Rightarrow> int \<Rightarrow> user option" where
  "User_query_get st i = find (\<lambda>u. u_id u = i) (users st)"

definition User_filter_by_email_first :: "state \<Rightarrow> string \<Rightarrow> user option" where
  "User_filter_by_email_first st e = find (\<lambda>u. u_email u = e) (users st)"

definition BlogPost_query_all :: "state \<Rightarrow> blog_post list" where
  "BlogPost_query_all st = blog_posts st"

definition BlogPost_query_get :: "state \<Rightarrow> int \<Rightarrow> blog_post option" where
  "BlogPost_query_get st i = find (\<lambda>p. bp_id p = i) (blog_posts st)"

definition Comment_filter_by_post_id_all :: "state \<Rightarrow> int \<Rightarrow> comment list" where
  "Comment_filter_by_post_id_all st pid =
     filter (\<lambda>c. c_post_id c = Some pid) (comments st)"

text \<open>
  \<open>db.session.add\<close> followed by \<open>db.session.commit\<close>. The \<open>unique=True\<close> columns
  (\<open>User.email\<close>, \<open>BlogPost.title\<close>) make the commit raise \<open>IntegrityError\<close> on a
  duplicate; the row is then not stored. The foreign keys of a comment are not checked
  on insert (the configured default store, SQLite, does not enforce them).
\<close>

definition add_user :: "state \<Rightarrow> string \<Rightarrow> string \<Rightarrow> string \<Rightarrow> exn + (user \<times> state)" where
  "add_user st nm pw em =
     (if find (\<lambda>u. u_email u = em) (users st) \<noteq> None then Inl IntegrityError
      else
        (let new_user = \<lparr>u_id = next_id (map u_id (users st)), u_email = em,
                          u_name = nm, u_password = pw\<rparr>
         in Inr (new_user, st\<lparr>users := users st @ [new_user]\<rparr>)))"

definition add_blog_post ::
  "state \<Rightarrow> string \<Rightarrow> string \<Rightarrow> string \<Rightarrow> string \<Rightarrow> int \<Rightarrow> string \<Rightarrow> exn + (blog_post \<times> state)"
where
  "add_blog_post st t s b img uid d =
     (if find (\<lambda>p. bp_title p = t) (blog_posts st) \<noteq> None then Inl IntegrityError
      else
        (let new_post = \<lparr>bp_id = next_id (map bp_id (blog_posts st)), bp_title = t,
                          bp_subtitle = s, bp_date = d, bp_body = b, bp_img_url = img,
                          bp_user_id = Some uid\<rparr>
         in Inr (new_post, st\<lparr>blog_posts := blog_posts st @ [new_post]\<rparr>)))"

definition add_comment :: "state \<Rightarrow> string \<Rightarrow> int \<Rightarrow> int \<Rightarrow> comment \<times> state" where
  "add_comment st txt pid uid =
     (let new_comment = \<lparr>c_id = next_id (map c_id (comments st)), c_comment = txt,
                          c_user_id = Some uid, c_post_id = Some pid\<rparr>
      in (new_comment, st\<lparr>comments := comments st @ [new_comment]\<rparr>))"

text \<open>
  Committing the attribute assignments of the edit handler: an \<open>UPDATE\<close> of the row,
  which the unique title constraint can reject.
\<close>

definition update_blog_post :: "state \<Rightarrow> blog_post \<Rightarrow> post_form \<Rightarrow> exn + state" where
  "update_blog_post st post f =
     (if find (\<lambda>p. bp_title p = pf_title f \<and> bp_id p \<noteq> bp_id post) (blog_posts st) \<noteq> None
      then Inl IntegrityError
      else Inr (st\<lparr>blog_posts :=
             map (\<lambda>p. if bp_id p = bp_id post
                       then p\<lparr>bp_title := pf_title f, bp_subtitle := pf_subtitle f,
                              bp_img_url := pf_img_url f, bp_body := pf_body f\<rparr>
                       else p) (blog_posts st)\<rparr>))"

text \<open>
  \<open>db.session.delete\<close> and commit. \<open>BlogPost.comment\<close> is a relationship without a
  delete cascade: the ORM detaches the comments of the deleted post by setting their
  \<open>post_id\<close> to \<open>NULL\<close>, and keeps them. Deleting \<open>None\<close> raises
  \<open>UnmappedInstanceError\<close>.
\<close>

definition delete_blog_post :: "state \<Rightarrow> blog_post option \<Rightarrow> exn + state" where
  "delete_blog_post st post_to_delete =
     (case post_to_delete of
        None \<Rightarrow> Inl UnmappedInstanceError
      | Some post \<Rightarrow>
          Inr (st\<lparr>blog_posts := filter (\<lambda>p. bp_id p \<noteq> bp_id post) (blog_posts st),
                  comments :=
                    map (\<lambda>c. if c_post_id c = Some (bp_id post)
                              then c\<lparr>c_post_id := None\<rparr> else c) (comments st)\<rparr>))"

text \<open>
  Reading an attribute of a \<open>BlogPost\<close> instance by name. The class declares the
  columns and the two relationships listed here; any other name used by the handlers
  raises \<open>AttributeError\<close>.
\<close>

datatype attr_value =
    Int_val "int option"
  | Str_val string
  | User_val "user option"
  | Comments_val "comment list"

definition BlogPost_getattr :: "state \<Rightarrow> blog_post \<Rightarrow> string \<Rightarrow> exn + attr_value" where
  "BlogPost_getattr st p a =
     (if a = ''id'' then Inr (Int_val (Some (bp_id p)))
      else if a = ''title'' then Inr (Str_val (bp_title p))
      else if a = ''subtitle'' then Inr (Str_val (bp_subtitle p))
      else if a = ''date'' then Inr (Str_val (bp_date p))
      else if a = ''body'' then Inr (Str_val (bp_body p))
      else if a = ''img_url'' then Inr (Str_val (bp_img_url p))
      else if a = ''user_id'' then Inr (Int_val (bp_user_id p))
      else if a = ''user'' then
        Inr (User_val (case bp_user_id p of None \<Rightarrow> None | Some i \<Rightarrow> User_query_get st i))
      else if a = ''comment'' then
        Inr (Comments_val (Comment_filter_by_post_id_all st (bp_id p)))
      else Inl AttributeError)"

section \<open>Session\<close>

text \<open>
  \<open>current_user\<close>: the \<open>load_user\<close> callback looks the session's identifier up;
  with no identifier, or none that names a stored user, the requester is anonymous
  (\<open>None\<close>), and \<open>is_authenticated\<close> is false.
\<close>

definition load_user :: "state \<Rightarrow> int \<Rightarrow> user option" where
  "load_user st i = User_query_get st i"

definition current_user :: "state \<Rightarrow> user option" where
  "current_user st =
     (case session_user_id st of None \<Rightarrow> None | Some i \<Rightarrow> load_user st i)"

definition login_user :: "user \<Rightarrow> state \<Rightarrow> state" where
  "login_user u st = st\<lparr>session_user_id := Some (u_id u)\<rparr>"

definition logout_user :: "state \<Rightarrow> state" where
  "logout_user st = st\<lparr>session_user_id := None\<rparr>"

definition flash :: "string \<Rightarrow> state \<Rightarrow> state" where
  "flash msg st = st\<lparr>flashes := flashes st @ [msg]\<rparr>"

text \<open>\<open>form.validate_on_submit()\<close>: the request is a POST and the validators accept.\<close>

definition validate_on_submit :: "http_method \<Rightarrow> bool \<Rightarrow> bool" where
  "validate_on_submit m valid = (m = POST \<and> valid)"

section \<open>Decorators\<close>

definition admin_only ::
  "(state \<Rightarrow> response \<times> state) \<Rightarrow> state \<Rightarrow> response \<times> state" where
  "admin_only fn st =
     (case current_user st of
        None \<Rightarrow> (Abort 403, st)
      | Some u \<Rightarrow> if u_id u = 1 then fn st else (Abort 403, st))"

section \<open>Route handlers\<close>

definition get_all_posts :: "state \<Rightarrow> response \<times> state" where
  "get_all_posts st = (Render (Index_page (BlogPost_query_all st)), st)"

definition already_exists_msg :: string where
  "already_exists_msg = ''That email already exists. Please log in instead.''"

definition register :: "env \<Rightarrow> http_method \<Rightarrow> register_form \<Rightarrow> state \<Rightarrow> response \<times> state" where
  "register e m form st =
     (case current_user st of
        Some _ \<Rightarrow> (Redirect To_get_all_posts, st)
      | None \<Rightarrow>
          if validate_on_submit m (validate_register e form) then
            (case User_filter_by_email_first st (rf_email form) of
               Some _ \<Rightarrow> (Redirect To_login, flash already_exists_msg st)
             | None \<Rightarrow>
                 (case add_user st (rf_name form)
                         (generate_password_hash e (rf_password form)) (rf_email form) of
                    Inl ex \<Rightarrow> (Fault ex, st)
                  | Inr (new_user, st') \<Rightarrow>
                      (Redirect To_get_all_posts, login_user new_user st')))
          else (Render Register_page, st))"

definition bad_credentials_msg :: string where
  "bad_credentials_msg = ''Account does not exist. Please double check your credentials.''"

definition login :: "env \<Rightarrow> http_method \<Rightarrow> login_form \<Rightarrow> state \<Rightarrow> response \<times> state" where
  "login e m form st =
     (case current_user st of
        Some _ \<Rightarrow> (Redirect To_get_all_posts, st)
      | None \<Rightarrow>
          if validate_on_submit m (validate_login e form) then
            (case User_filter_by_email_first st (lf_email form) of
               None \<Rightarrow> (Render Login_page, flash bad_credentials_msg st)
             | Some u \<Rightarrow>
                 if check_password_hash e (u_password u) (lf_password form)
                 then (Redirect To_get_all_posts, login_user u st)
                 else (Render Login_page, flash bad_credentials_msg st))
          else (Render Login_page, st))"

text \<open>
  \<open>logout\<close> is registered by \<open>app.route\<close> before \<open>login_required\<close> wraps it
  (decorators apply from the bottom), so the view the route table holds is the bare
  function: it runs for every requester.
\<close>

definition logout :: "state \<Rightarrow> response \<times> state" where
  "logout st = (Redirect To_get_all_posts, logout_user st)"

definition login_first_msg :: string where
  "login_first_msg = ''Please login before commenting''"

definition show_post ::
  "env \<Rightarrow> int \<Rightarrow> http_method \<Rightarrow> comment_form \<Rightarrow> state \<Rightarrow> response \<times> state" where
  "show_post e post_id m form st =
     (let requested_post = BlogPost_query_get st post_id in
      if validate_on_submit m (validate_comment e form) then
        (case current_user st of
           None \<Rightarrow> (Redirect To_login, flash login_first_msg st)
         | Some u \<Rightarrow>
             (let st' = snd (add_comment st (cf_comment form) post_id (u_id u))
              in (Render (Post_page requested_post (Comment_filter_by_post_id_all st' post_id)),
                  st')))
      else (Render (Post_page requested_post (Comment_filter_by_post_id_all st post_id)), st))"

definition about :: "state \<Rightarrow> response \<times> state" where
  "about st = (Render About_page, st)"

definition contact :: "state \<Rightarrow> response \<times> state" where
  "contact st = (Render Contact_page, st)"

text \<open>The body of \<open>add_new_post\<close>; it runs under \<open>admin_only\<close>, so a user is logged in.\<close>

definition add_new_post_fn ::
  "env \<Rightarrow> http_method \<Rightarrow> post_form \<Rightarrow> state \<Rightarrow> response \<times> state" where
  "add_new_post_fn e m form st =
     (if validate_on_submit m (validate_post e form) then
        (case current_user st of
           None \<Rightarrow> (Fault AttributeError, st)
         | Some u \<Rightarrow>
             (case add_blog_post st (pf_title form) (pf_subtitle form) (pf_body form)
                     (pf_img_url form) (u_id u) (today e) of
                Inl ex \<Rightarrow> (Fault ex, st)
              | Inr (new_post, st') \<Rightarrow> (Redirect To_get_all_posts, st')))
      else (Render (Make_post_page form), st))"

definition add_new_post ::
  "env \<Rightarrow> http_method \<Rightarrow> post_form \<Rightarrow> state \<Rightarrow> response \<times> state" where
  "add_new_post e m form = admin_only (add_new_post_fn e m form)"

text \<open>
  The body of \<open>edit_post\<close>. The keyword arguments of \<open>CreatePostForm(...)\<close> are
  evaluated in the order written: \<open>post.title\<close>, \<open>post.subtitle\<close>,
  \<open>post.img_url\<close>, \<open>post.author\<close>, \<open>post.body\<close>. With no such post, \<open>post\<close> is
  \<open>None\<close> and the first read raises \<open>AttributeError\<close>.
\<close>

definition str_of :: "attr_value \<Rightarrow> string" where
  "str_of v = (case v of Str_val s \<Rightarrow> s | _ \<Rightarrow> [])"

definition edit_post_fn ::
  "env \<Rightarrow> int \<Rightarrow> http_method \<Rightarrow> post_form \<Rightarrow> state \<Rightarrow> response \<times> state" where
  "edit_post_fn e post_id m form st =
     (case BlogPost_query_get st post_id of
        None \<Rightarrow> (Fault AttributeError, st)
      | Some post \<Rightarrow>
          (case BlogPost_getattr st post ''title'' of Inl ex \<Rightarrow> (Fault ex, st) | Inr t \<Rightarrow>
          (case BlogPost_getattr st post ''subtitle'' of Inl ex \<Rightarrow> (Fault ex, st) | Inr s \<Rightarrow>
          (case BlogPost_getattr st post ''img_url'' of Inl ex \<Rightarrow> (Fault ex, st) | Inr i \<Rightarrow>
          (case BlogPost_getattr st post ''author'' of Inl ex \<Rightarrow> (Fault ex, st) | Inr a \<Rightarrow>
          (case BlogPost_getattr st post ''body'' of Inl ex \<Rightarrow> (Fault ex, st) | Inr b \<Rightarrow>
             if validate_on_submit m (validate_post e form) then
               (case update_blog_post st post form of
                  Inl ex \<Rightarrow> (Fault ex, st)
                | Inr st' \<Rightarrow> (Redirect (To_show_post (bp_id post)), st'))
             else
               (Render (Make_post_page
                  (if m = POST then form
                   else \<lparr>pf_title = str_of t, pf_subtitle = str_of s,
                         pf_img_url = str_of i, pf_body = str_of b\<rparr>)), st)))))))"

definition edit_post ::
  "env \<Rightarrow> int \<Rightarrow> http_method \<Rightarrow> post_form \<Rightarrow> state \<Rightarrow> response \<times> state" where
  "edit_post e post_id m form = admin_only (edit_post_fn e post_id m form)"

definition delete_post_fn :: "int \<Rightarrow> state \<Rightarrow> response \<times> state" where
  "delete_post_fn post_id st =
     (let post_to_delete = BlogPost_query_get st post_id in
      case delete_blog_post st post_to_delete of
        Inl ex \<Rightarrow> (Fault ex, st)
      | Inr st' \<Rightarrow> (Redirect To_get_all_posts, st'))"

definition delete_post :: "int \<Rightarrow> state \<Rightarrow> response \<times> state" where
  "delete_post post_id = admin_only (delete_post_fn post_id)"

section \<open>Routing\<close>

datatype request =
    Get_all_posts
  | Register http_method register_form
  | Login http_method login_form
  | Logout
  | Show_post int http_method comment_form
  | About
  | Contact
  | Add_new_post http_method post_form
  | Edit_post int http_method post_form
  | Delete_post int

fun handle :: "env \<Rightarrow> request \<Rightarrow> state \<Rightarrow> response \<times> state" where
  "handle e Get_all_posts st = get_all_posts st"
| "handle e (Register m f) st = register e m f st"
| "handle e (Login m f) st = login e m f st"
| "handle e Logout st = logout st"
| "handle e (Show_post pid m f) st = show_post e pid m f st"
| "handle e About st = about st"
| "handle e Contact st = contact st"
| "handle e (Add_new_post m f) st = add_new_post e m f st"
| "handle e (Edit_post pid m f) st = edit_post e pid m f st"
| "handle e (Delete_post pid) st = delete_post pid st"

fun post_mutation_route :: "request \<Rightarrow> bool" where
  "post_mutation_route (Add_new_post _ _) = True"
| "post_mutation_route (Edit_post _ _ _) = True"
| "post_mutation_route (Delete_post _) = True"
| "post_mutation_route _ = False"

text \<open>
  A sequence of requests, each with the collaborators as they are at that moment (the
  clock moves, hashing is salted).
\<close>

fun run :: "(env \<times> request) list \<Rightarrow> state \<Rightarrow> state" where
  "run [] st = st"
| "run ((e, r) # rs) st = run rs (snd (handle e r st))"


section \<open>Referential integrity\<close>

text \<open>
  A foreign key references exactly one existing row when it is not \<open>NULL\<close> and
  exactly one stored row has that identifier.
\<close>

definition count_users :: "state \<Rightarrow> int \<Rightarrow> nat" where
  "count_users st i = length (filter (\<lambda>u. u_id u = i) (users st))"

definition count_posts :: "state \<Rightarrow> int \<Rightarrow> nat" where
  "count_posts st i = length (filter (\<lambda>p. bp_id p = i) (blog_posts st))"

definition refs_one_user :: "state \<Rightarrow> int option \<Rightarrow> bool" where
  "refs_one_user st r = (case r of None \<Rightarrow> False | Some i \<Rightarrow> count_users st i = 1)"

definition refs_one_post :: "state \<Rightarrow> int option \<Rightarrow> bool" where
  "refs_one_post st r = (case r of None \<Rightarrow> False | Some i \<Rightarrow> count_posts st i = 1)"

text \<open>Every comment and every post references exactly one existing user.\<close>

definition user_references_ok :: "state \<Rightarrow> bool" where
  "user_references_ok st =
     (list_all (\<lambda>c. refs_one_user st (c_user_id c)) (comments st)
      \<and> list_all (\<lambda>p. refs_one_user st (bp_user_id p)) (blog_posts st))"

text \<open>The same, and every comment references exactly one existing post.\<close>

definition referential_integrity :: "state \<Rightarrow> bool" where
  "referential_integrity st =
     (user_references_ok st
      \<and> list_all (\<lambda>c. refs_one_post st (c_post_id c)) (comments st))"

text \<open>User identifiers are distinct and every user reference is good.\<close>

definition store_ok :: "state \<Rightarrow> bool" where
  "store_ok st = (distinct (map u_id (users st)) \<and> user_references_ok st)"

section \<open>Concrete collaborators and states\<close>

definition env0 :: env where
  "env0 = \<lparr>validate_register = (\<lambda>_. True), validate_login = (\<lambda>_. True),
           validate_comment = (\<lambda>_. True), validate_post = (\<lambda>_. True),
           generate_password_hash = (\<lambda>p. ''hash:'' @ p),
           check_password_hash = (\<lambda>h p. h = ''hash:'' @ p),
           today = ''April 05, 2024''\<rparr>"

definition ann_form :: register_form where
  "ann_form = \<lparr>rf_name = ''Ann'', rf_email = ''ann@example.com'', rf_password = ''pw1''\<rparr>"

definition bob_form :: register_form where
  "bob_form = \<lparr>rf_name = ''Bob'', rf_email = ''bob@example.com'', rf_password = ''pw2''\<rparr>"

definition form_T :: post_form where
  "form_T = \<lparr>pf_title = ''T'', pf_subtitle = ''S'', pf_img_url = ''U'', pf_body = ''B''\<rparr>"

definition form_T2 :: post_form where
  "form_T2 = \<lparr>pf_title = ''T'', pf_subtitle = ''S2'', pf_img_url = ''U2'', pf_body = ''B2''\<rparr>"

definition ann :: user where
  "ann = \<lparr>u_id = 1, u_email = ''ann@example.com'', u_name = ''Ann'',
          u_password = ''hash:pw1''\<rparr>"

definition bob :: user where
  "bob = \<lparr>u_id = 2, u_email = ''bob@example.com'', u_name = ''Bob'',
          u_password = ''hash:pw2''\<rparr>"

definition post1 :: blog_post where
  "post1 = \<lparr>bp_id = 1, bp_title = ''T'', bp_subtitle = ''S'', bp_date = ''April 05, 2024'',
            bp_body = ''B'', bp_img_url = ''U'', bp_user_id = Some 1\<rparr>"

text \<open>Ann, the first user registered, is logged in; nothing is posted yet.\<close>

definition st_admin :: state where
  "st_admin = \<lparr>users = [ann], blog_posts = [], comments = [],
               session_user_id = Some 1, flashes = []\<rparr>"

text \<open>Ann has posted \<open>T\<close>.\<close>

definition st_posted :: state where
  "st_posted = \<lparr>users = [ann], blog_posts = [post1], comments = [],
                session_user_id = Some 1, flashes = []\<rparr>"

text \<open>Ann and Bob are registered, Bob is logged in.\<close>

definition st_reader :: state where
  "st_reader = \<lparr>users = [ann, bob], blog_posts = [], comments = [],
                session_user_id = Some 2, flashes = []\<rparr>"

text \<open>Ann is registered, nobody is logged in.\<close>

definition st_anon :: state where
  "st_anon = \<lparr>users = [ann], blog_posts = [], comments = [],
              session_user_id = None, flashes = []\<rparr>"

definition comment_hi :: comment_form where
  "comment_hi = \<lparr>cf_comment = ''hi''\<rparr>"

text \<open>
  Ann registers, posts \<open>T\<close>, comments on it and deletes it.
\<close>

definition comment_then_delete :: "(env \<times> request) list" where
  "comment_then_delete =
     [(env0, Register POST ann_form), (env0, Add_new_post POST form_T),
      (env0, Show_post 1 POST comment_hi), (env0, Delete_post 1)]"

definition wrong_password :: login_form where
  "wrong_password = \<lparr>lf_email = ''ann@example.com'', lf_password = ''guess''\<rparr>"

definition unknown_email :: login_form where
  "unknown_email = \<lparr>lf_email = ''eve@example.com'', lf_password = ''pw1''\<rparr>"

section \<open>Unfolding the handlers\<close>

lemmas db_defs =
  next_id_def User_query_get_def User_filter_by_email_first_def BlogPost_query_all_def
  BlogPost_query_get_def Comment_filter_by_post_id_all_def add_user_def add_blog_post_def
  add_comment_def update_blog_post_def delete_blog_post_def BlogPost_getattr_def Let_def

lemmas session_defs =
  load_user_def current_user_def login_user_def logout_user_def flash_def
  validate_on_submit_def

lemmas handler_defs =
  admin_only_def get_all_posts_def register_def login_def logout_def show_post_def
  about_def contact_def add_new_post_fn_def add_new_post_def edit_post_fn_def
  edit_post_def delete_post_fn_def delete_post_def

lemmas example_defs =
  env0_def ann_form_def bob_form_def form_T_def ann_def bob_def post1_def
  st_admin_def st_posted_def st_reader_def st_anon_def init_state_def

text \<open>The example states arise from the empty store through the routes.\<close>

lemma st_admin_reachable:
  "run [(env0, Register POST ann_form)] init_state = st_admin"
  by (simp add: example_defs handler_defs session_defs db_defs)

lemma st_posted_reachable:
  "run [(env0, Add_new_post POST form_T)] st_admin = st_posted"
  by (simp add: example_defs handler_defs session_defs db_defs)

lemma st_anon_reachable:
  "run [(env0, Logout)] st_admin = st_anon"
  by (simp add: example_defs handler_defs session_defs db_defs)

lemma st_reader_reachable:
  "run [(env0, Register POST bob_form)] st_anon = st_reader"
  by (simp add: example_defs handler_defs session_defs db_defs)

section \<open>The authorization guard\<close>

lemma admin_only_rejects:
  "(case current_user st of None \<Rightarrow> True | Some u \<Rightarrow> u_id u \<noteq> 1) \<Longrightarrow>
   admin_only fn st = (Abort 403, st)"
  by (simp add: admin_only_def split: option.splits)

text \<open>
  C1. A request to a post-mutation route (new post, edit post, delete post) from an
  anonymous session, or from the session of a user whose identifier is not 1, is
  answered with status 403 and returns the state it found: users, posts, comments and
  session are what they were, so no handler body ran before the guard.
\<close>

theorem non_admin_forbidden:
  assumes "post_mutation_route req"
    and "case current_user st of None \<Rightarrow> True | Some u \<Rightarrow> u_id u \<noteq> 1"
  shows "handle e req st = (Abort 403, st) \<and> status (fst (handle e req st)) = 403"
  using assms
  by (cases req) (simp_all add: add_new_post_def edit_post_def delete_post_def admin_only_rejects)

theorem non_admin_forbidden_witness:
  "post_mutation_route (Delete_post 1)
   \<and> current_user st_reader = Some bob \<and> u_id bob \<noteq> 1
   \<and> handle env0 (Delete_post 1) st_reader = (Abort 403, st_reader)
   \<and> current_user init_state = None
   \<and> handle env0 (Add_new_post POST form_T) init_state = (Abort 403, init_state)"
proof -
  have cu: "current_user st_reader = Some bob"
    by (simp add: example_defs session_defs db_defs)
  have h1: "case current_user st_reader of None \<Rightarrow> True | Some u \<Rightarrow> u_id u \<noteq> 1"
    by (simp add: cu) (simp add: bob_def)
  have cu0: "current_user init_state = None"
    by (simp add: example_defs session_defs)
  have h2: "case current_user init_state of None \<Rightarrow> True | Some u \<Rightarrow> u_id u \<noteq> 1"
    by (simp add: cu0)
  have r1: "post_mutation_route (Delete_post 1)" by simp
  have r2: "post_mutation_route (Add_new_post POST form_T)" by simp
  from non_admin_forbidden [OF r1 h1, of env0] non_admin_forbidden [OF r2 h2, of env0] cu cu0
  show ?thesis by (simp add: bob_def)
qed

section \<open>Logout\<close>

text \<open>
  C7. From every state, the logout route answers with a redirect to the post listing
  and leaves the session anonymous; called again on the resulting state it answers with
  the same redirect, the session is still anonymous, and nothing else has changed.
\<close>

theorem logout_twice:
  "fst (handle e Logout st) = Redirect To_get_all_posts
   \<and> session_user_id (snd (handle e Logout st)) = None
   \<and> current_user (snd (handle e Logout st)) = None
   \<and> fst (handle e' Logout (snd (handle e Logout st))) = Redirect To_get_all_posts
   \<and> session_user_id (snd (handle e' Logout (snd (handle e Logout st)))) = None
   \<and> current_user (snd (handle e' Logout (snd (handle e Logout st)))) = None
   \<and> snd (handle e' Logout (snd (handle e Logout st))) = snd (handle e Logout st)"
  by (simp add: logout_def logout_user_def current_user_def)

section \<open>The edit route\<close>

lemma BlogPost_has_no_author: "BlogPost_getattr st p ''author'' = Inl AttributeError"
  by (simp add: BlogPost_getattr_def)

lemma edit_post_fn_faults: "edit_post_fn e pid m f st = (Fault AttributeError, st)"
  by (simp add: edit_post_fn_def BlogPost_getattr_def split: option.splits)

lemma edit_post_unchanged: "snd (edit_post e pid m f st) = st"
  by (simp add: edit_post_def admin_only_def edit_post_fn_faults split: option.splits)

text \<open>
  C10. \<open>edit_post\<close> reads \<open>post.author\<close>, an attribute \<open>BlogPost\<close> does not have.
  For an admin request on an existing post the handler therefore raises
  \<open>AttributeError\<close> and leaves the state as it was. No request to the edit route, by
  any requester and on any state, is answered with a page or a redirect: the answer is
  403 or the fault, and the state is unchanged.
\<close>

theorem edit_post_never_completes:
  "(current_user st = Some u \<and> u_id u = 1 \<and> BlogPost_query_get st pid = Some p
      \<longrightarrow> handle e (Edit_post pid m f) st = (Fault AttributeError, st))
   \<and> (\<forall>e' pid' m' f' st'.
        (fst (handle e' (Edit_post pid' m' f') st') = Abort 403
           \<or> fst (handle e' (Edit_post pid' m' f') st') = Fault AttributeError)
        \<and> snd (handle e' (Edit_post pid' m' f') st') = st')"
  by (simp add: edit_post_def admin_only_def edit_post_fn_faults split: option.splits)

theorem edit_post_never_completes_witness:
  "current_user st_posted = Some ann \<and> u_id ann = 1
   \<and> BlogPost_query_get st_posted 1 = Some post1
   \<and> handle env0 (Edit_post 1 POST form_T2) st_posted = (Fault AttributeError, st_posted)
   \<and> handle env0 (Edit_post 1 GET form_T2) st_posted = (Fault AttributeError, st_posted)"
proof -
  have h: "current_user st_posted = Some ann \<and> u_id ann = 1
           \<and> BlogPost_query_get st_posted 1 = Some post1"
    by (simp add: example_defs session_defs db_defs)
  from edit_post_never_completes [of st_posted ann 1 post1 env0 POST form_T2]
       edit_post_never_completes [of st_posted ann 1 post1 env0 GET form_T2] h
  show ?thesis by blast
qed

text \<open>
  C8. The edit route for an existing post, requested by the admin with a valid form,
  is meant to overwrite title, subtitle, image and body and to redirect to the post's
  page. The handler raises \<open>AttributeError\<close> at \<open>post.author\<close> before any of that:
  the answer has status 500, there is no redirect, and the post keeps its old fields.
\<close>

theorem edit_post_admin_post_faults:
  "current_user st_posted = Some ann \<and> u_id ann = 1
   \<and> BlogPost_query_get st_posted 1 = Some post1
   \<and> validate_on_submit POST (validate_post env0 form_T2)
   \<and> handle env0 (Edit_post 1 POST form_T2) st_posted = (Fault AttributeError, st_posted)
   \<and> status (fst (handle env0 (Edit_post 1 POST form_T2) st_posted)) = 500
   \<and> fst (handle env0 (Edit_post 1 POST form_T2) st_posted) \<noteq> Redirect (To_show_post 1)
   \<and> blog_posts (snd (handle env0 (Edit_post 1 POST form_T2) st_posted)) = [post1]
   \<and> bp_subtitle post1 \<noteq> pf_subtitle form_T2"
  by (simp add: form_T2_def example_defs handler_defs session_defs db_defs)

section \<open>Missing posts\<close>

text \<open>
  C2. Post 7 does not exist. Viewing it renders the post page with no post (status
  200); for the admin, editing it raises \<open>AttributeError\<close> and deleting it raises
  \<open>UnmappedInstanceError\<close> (status 500). None of the three answers is a 404.
\<close>

theorem missing_post_not_404:
  "BlogPost_query_get st_posted 7 = None
   \<and> handle env0 (Show_post 7 GET \<lparr>cf_comment = []\<rparr>) st_posted
       = (Render (Post_page None []), st_posted)
   \<and> handle env0 (Edit_post 7 GET form_T) st_posted = (Fault AttributeError, st_posted)
   \<and> handle env0 (Delete_post 7) st_posted = (Fault UnmappedInstanceError, st_posted)
   \<and> status (fst (handle env0 (Show_post 7 GET \<lparr>cf_comment = []\<rparr>) st_posted)) = 200
   \<and> status (fst (handle env0 (Edit_post 7 GET form_T) st_posted)) = 500
   \<and> status (fst (handle env0 (Delete_post 7) st_posted)) = 500"
  by (simp add: example_defs handler_defs session_defs db_defs)

section \<open>Duplicate titles\<close>

text \<open>
  C5. The admin submits the same valid form, titled \<open>T\<close>, twice. The first post is
  stored. The handler does not look for the title before the second insert: the commit
  raises \<open>IntegrityError\<close>, which nothing catches (status 500, no form page, no flash
  message); the same happens for another form with that title. One post titled \<open>T\<close>
  is stored afterwards.
\<close>

theorem duplicate_title_raises:
  "handle env0 (Add_new_post POST form_T) st_admin = (Redirect To_get_all_posts, st_posted)
   \<and> handle env0 (Add_new_post POST form_T) st_posted = (Fault IntegrityError, st_posted)
   \<and> handle env0 (Add_new_post POST form_T2) st_posted = (Fault IntegrityError, st_posted)
   \<and> status (fst (handle env0 (Add_new_post POST form_T) st_posted)) = 500
   \<and> flashes (snd (handle env0 (Add_new_post POST form_T) st_posted)) = []
   \<and> length (filter (\<lambda>p. bp_title p = ''T'')
        (blog_posts (snd (handle env0 (Add_new_post POST form_T) st_posted)))) = 1"
  by (simp add: form_T2_def example_defs handler_defs session_defs db_defs)


section \<open>Registration with a known email\<close>

text \<open>
  C3, as the handler has it. When the submitted email is that of a stored user, no
  request to the register route changes the stored users or the session's identity.
  When moreover the requester is not logged in and the form validates, the answer is a
  redirect to the login page and one message is flashed. (A logged-in requester is sent
  to the listing before the form is looked at.)
\<close>

theorem register_known_email:
  assumes "User_filter_by_email_first st (rf_email form) = Some u0"
  shows "users (snd (handle e (Register m form) st)) = users st
         \<and> session_user_id (snd (handle e (Register m form) st)) = session_user_id st
         \<and> (current_user st = None \<and> validate_register e form \<longrightarrow>
              handle e (Register POST form) st
                = (Redirect To_login, st\<lparr>flashes := flashes st @ [already_exists_msg]\<rparr>))"
  using assms
  by (simp add: register_def flash_def validate_on_submit_def split: option.splits)

theorem register_known_email_witness:
  "User_filter_by_email_first st_anon (rf_email ann_form) = Some ann
   \<and> current_user st_anon = None \<and> validate_register env0 ann_form
   \<and> handle env0 (Register POST ann_form) st_anon
       = (Redirect To_login, st_anon\<lparr>flashes := [already_exists_msg]\<rparr>)
   \<and> users (snd (handle env0 (Register POST ann_form) st_anon)) = [ann]"
proof -
  have h: "User_filter_by_email_first st_anon (rf_email ann_form) = Some ann"
    by (simp add: example_defs db_defs)
  have a: "current_user st_anon = None \<and> validate_register env0 ann_form"
    by (simp add: example_defs session_defs)
  have f: "flashes st_anon = [] \<and> users st_anon = [ann]"
    by (simp add: st_anon_def)
  from register_known_email [OF h, of env0 POST] a f h show ?thesis by simp
qed

text \<open>
  C3 as stated fails for a requester who is logged in: Ann, logged in, submits the
  registration form with her own (stored) email and is redirected to the post listing,
  not to the login page, and no message is flashed.
\<close>

theorem register_known_email_counterexample:
  "User_filter_by_email_first st_admin (rf_email ann_form) = Some ann
   \<and> validate_on_submit POST (validate_register env0 ann_form)
   \<and> handle env0 (Register POST ann_form) st_admin = (Redirect To_get_all_posts, st_admin)
   \<and> fst (handle env0 (Register POST ann_form) st_admin) \<noteq> Redirect To_login
   \<and> flashes (snd (handle env0 (Register POST ann_form) st_admin)) = []"
  by (simp add: example_defs handler_defs session_defs db_defs)

section \<open>Failed login\<close>

text \<open>
  C4, as the handler has it. The requester is not logged in, and the submitted email
  names no stored user or names one whose stored hash rejects the submitted password.
  Then the answer is the login form, never a redirect; the session is as it was, so
  nobody is logged in afterwards; and when the form validated, the one message flashed
  is the same text in both cases.
\<close>

theorem login_failure:
  assumes "current_user st = None"
    and "case User_filter_by_email_first st (lf_email form) of
           None \<Rightarrow> True
         | Some u \<Rightarrow> \<not> check_password_hash e (u_password u) (lf_password form)"
  shows "fst (handle e (Login m form) st) = Render Login_page
         \<and> session_user_id (snd (handle e (Login m form) st)) = session_user_id st
         \<and> current_user (snd (handle e (Login m form) st)) = None
         \<and> flashes (snd (handle e (Login m form) st))
             = flashes st @ (if validate_on_submit m (validate_login e form)
                             then [bad_credentials_msg] else [])"
  using assms
  by (auto simp add: login_def flash_def current_user_def load_user_def User_query_get_def
      split: option.splits)

theorem login_failure_witness:
  "current_user st_anon = None
   \<and> User_filter_by_email_first st_anon (lf_email wrong_password) = Some ann
   \<and> \<not> check_password_hash env0 (u_password ann) (lf_password wrong_password)
   \<and> User_filter_by_email_first st_anon (lf_email unknown_email) = None
   \<and> handle env0 (Login POST wrong_password) st_anon
       = (Render Login_page, st_anon\<lparr>flashes := [bad_credentials_msg]\<rparr>)
   \<and> handle env0 (Login POST unknown_email) st_anon
       = (Render Login_page, st_anon\<lparr>flashes := [bad_credentials_msg]\<rparr>)"
proof -
  have a: "current_user st_anon = None"
    by (simp add: example_defs session_defs)
  have w: "User_filter_by_email_first st_anon (lf_email wrong_password) = Some ann"
    by (simp add: wrong_password_def example_defs db_defs)
  have nw: "\<not> check_password_hash env0 (u_password ann) (lf_password wrong_password)"
    by (simp add: wrong_password_def example_defs)
  have u: "User_filter_by_email_first st_anon (lf_email unknown_email) = None"
    by (simp add: unknown_email_def example_defs db_defs)
  have h1: "case User_filter_by_email_first st_anon (lf_email wrong_password) of
              None \<Rightarrow> True
            | Some u \<Rightarrow> \<not> check_password_hash env0 (u_password u) (lf_password wrong_password)"
    using w nw by simp
  have h2: "case User_filter_by_email_first st_anon (lf_email unknown_email) of
              None \<Rightarrow> True
            | Some u \<Rightarrow> \<not> check_password_hash env0 (u_password u) (lf_password unknown_email)"
    using u by simp
  have r1: "fst (handle env0 (Login POST wrong_password) st_anon) = Render Login_page"
    using login_failure [OF a h1, of POST] by simp
  have r2: "fst (handle env0 (Login POST unknown_email) st_anon) = Render Login_page"
    using login_failure [OF a h2, of POST] by simp
  have s1: "snd (handle env0 (Login POST wrong_password) st_anon)
              = st_anon\<lparr>flashes := [bad_credentials_msg]\<rparr>"
    by (simp add: wrong_password_def example_defs handler_defs session_defs db_defs)
  have s2: "snd (handle env0 (Login POST unknown_email) st_anon)
              = st_anon\<lparr>flashes := [bad_credentials_msg]\<rparr>"
    by (simp add: unknown_email_def example_defs handler_defs session_defs db_defs)
  from a w nw u r1 r2 s1 s2 show ?thesis by (simp add: prod_eq_iff)
qed

text \<open>
  C4 as stated fails for a requester who is logged in: Ann, logged in, submits the login
  form with a wrong password, and again with an email nobody registered; both times the
  answer is a redirect to the post listing, and no message is flashed.
\<close>

theorem login_failure_counterexample:
  "User_filter_by_email_first st_admin (lf_email wrong_password) = Some ann
   \<and> \<not> check_password_hash env0 (u_password ann) (lf_password wrong_password)
   \<and> handle env0 (Login POST wrong_password) st_admin = (Redirect To_get_all_posts, st_admin)
   \<and> User_filter_by_email_first st_admin (lf_email unknown_email) = None
   \<and> handle env0 (Login POST unknown_email) st_admin = (Redirect To_get_all_posts, st_admin)
   \<and> fst (handle env0 (Login POST wrong_password) st_admin) \<noteq> Render Login_page"
  by (simp add: wrong_password_def unknown_email_def example_defs handler_defs session_defs
      db_defs)

section \<open>Fresh identifiers\<close>

lemma fold_max_ge_init: "(i::int) \<le> fold max js i"
proof (induction js arbitrary: i)
  case Nil
  show ?case by simp
next
  case (Cons a js)
  have "i \<le> max a i" by simp
  also have "max a i \<le> fold max js (max a i)" by (rule Cons.IH)
  finally show ?case by simp
qed

lemma fold_max_ge_mem: "x \<in> set js \<Longrightarrow> (x::int) \<le> fold max js i"
proof (induction js arbitrary: i)
  case Nil
  then show ?case by simp
next
  case (Cons a js)
  show ?case
  proof (cases "x = a")
    case True
    have "a \<le> max a i" by simp
    also have "max a i \<le> fold max js (max a i)" by (rule fold_max_ge_init)
    finally show ?thesis using True by simp
  next
    case False
    with Cons.prems have "x \<in> set js" by simp
    then show ?thesis using Cons.IH by simp
  qed
qed

lemma next_id_greater: "x \<in> set ids \<Longrightarrow> x < next_id ids"
proof (cases ids)
  case Nil
  assume "x \<in> set ids"
  with Nil show ?thesis by simp
next
  case (Cons i js)
  assume "x \<in> set ids"
  with Cons have "x = i \<or> x \<in> set js" by simp
  then have "x \<le> fold max js i"
    using fold_max_ge_init [of i js] fold_max_ge_mem [of x js i] by blast
  with Cons show ?thesis by (simp add: next_id_def)
qed

lemma next_id_fresh: "next_id ids \<notin> set ids"
  using next_id_greater [of "next_id ids" ids] by blast

lemma find_snoc_fresh:
  "find P xs = None \<Longrightarrow> P y \<Longrightarrow> find P (xs @ [y]) = Some y"
  by (induction xs) (auto split: if_splits)

lemma find_id_fresh: "find (\<lambda>p. f p = next_id (map f xs)) xs = None"
proof -
  have "next_id (map f xs) \<notin> f ` set xs"
    using next_id_fresh [of "map f xs"] by simp
  then have "\<not> (\<exists>x. x \<in> set xs \<and> f x = next_id (map f xs))"
    by (metis imageI)
  then show ?thesis by (simp add: find_None_iff)
qed

section \<open>Creating a post and reading it back\<close>

text \<open>
  C6. The admin submits a valid new-post form whose title no stored post has. The
  answer is the redirect to the listing, and in the resulting state the listing holds a
  post with the newly assigned identifier and the submitted title; the view page of that
  identifier shows this post, with the submitted subtitle and body.
\<close>

theorem create_then_fetch:
  assumes "current_user st = Some u" and "u_id u = 1"
    and "validate_post e form"
    and "find (\<lambda>p. bp_title p = pf_title form) (blog_posts st) = None"
  shows "\<exists>st' p ps cs.
           handle e (Add_new_post POST form) st = (Redirect To_get_all_posts, st')
         \<and> fst (handle e1 Get_all_posts st') = Render (Index_page ps)
         \<and> p \<in> set ps
         \<and> bp_id p = next_id (map bp_id (blog_posts st))
         \<and> bp_title p = pf_title form
         \<and> fst (handle e2 (Show_post (bp_id p) GET cf) st') = Render (Post_page (Some p) cs)
         \<and> bp_subtitle p = pf_subtitle form
         \<and> bp_body p = pf_body form"
proof -
  define p where "p = \<lparr>bp_id = next_id (map bp_id (blog_posts st)), bp_title = pf_title form,
      bp_subtitle = pf_subtitle form, bp_date = today e, bp_body = pf_body form,
      bp_img_url = pf_img_url form, bp_user_id = Some (u_id u)\<rparr>"
  define st' where "st' = st\<lparr>blog_posts := blog_posts st @ [p]\<rparr>"
  have created: "handle e (Add_new_post POST form) st = (Redirect To_get_all_posts, st')"
    using assms
    by (simp add: add_new_post_def admin_only_def add_new_post_fn_def validate_on_submit_def
        add_blog_post_def Let_def p_def st'_def)
  have listing: "fst (handle e1 Get_all_posts st') = Render (Index_page (blog_posts st @ [p]))"
    by (simp add: get_all_posts_def BlogPost_query_all_def st'_def)
  have idp: "bp_id p = next_id (map bp_id (blog_posts st))"
    by (simp add: p_def)
  have "find (\<lambda>q. bp_id q = next_id (map bp_id (blog_posts st))) (blog_posts st) = None"
    by (rule find_id_fresh)
  then have "find (\<lambda>q. bp_id q = bp_id p) (blog_posts st @ [p]) = Some p"
    by (simp add: idp find_snoc_fresh)
  then have got: "BlogPost_query_get st' (bp_id p) = Some p"
    by (simp add: BlogPost_query_get_def st'_def)
  have view: "fst (handle e2 (Show_post (bp_id p) GET cf) st')
                = Render (Post_page (Some p) (Comment_filter_by_post_id_all st' (bp_id p)))"
    by (simp add: show_post_def validate_on_submit_def got)
  have fields: "bp_title p = pf_title form \<and> bp_subtitle p = pf_subtitle form
                \<and> bp_body p = pf_body form"
    by (simp add: p_def)
  have mem: "p \<in> set (blog_posts st @ [p])"
    by simp
  from created listing mem idp view fields show ?thesis by blast
qed

theorem create_then_fetch_witness:
  "current_user st_admin = Some ann \<and> u_id ann = 1 \<and> validate_post env0 form_T
   \<and> find (\<lambda>p. bp_title p = pf_title form_T) (blog_posts st_admin) = None
   \<and> (\<exists>st' p ps cs.
           handle env0 (Add_new_post POST form_T) st_admin = (Redirect To_get_all_posts, st')
         \<and> fst (handle env0 Get_all_posts st') = Render (Index_page ps)
         \<and> p \<in> set ps
         \<and> bp_id p = 1
         \<and> bp_title p = ''T''
         \<and> fst (handle env0 (Show_post (bp_id p) GET comment_hi) st')
             = Render (Post_page (Some p) cs)
         \<and> bp_subtitle p = ''S''
         \<and> bp_body p = ''B'')"
proof -
  have a: "current_user st_admin = Some ann"
    by (simp add: example_defs session_defs db_defs)
  have b: "u_id ann = 1" by (simp add: ann_def)
  have c: "validate_post env0 form_T" by (simp add: env0_def)
  have d: "find (\<lambda>p. bp_title p = pf_title form_T) (blog_posts st_admin) = None"
    by (simp add: st_admin_def)
  have i: "next_id (map bp_id (blog_posts st_admin)) = 1"
    by (simp add: st_admin_def next_id_def)
  have f: "pf_title form_T = ''T'' \<and> pf_subtitle form_T = ''S'' \<and> pf_body form_T = ''B''"
    by (simp add: form_T_def)
  from create_then_fetch [OF a b c d, of env0 env0 comment_hi] a b c d
  show ?thesis unfolding i using f by simp
qed


section \<open>References from posts and comments\<close>

lemma find_Some_member: "find P xs = Some x \<Longrightarrow> x \<in> set xs \<and> P x"
  by (induction xs) (auto split: if_splits)

lemma count_one_member:
  "distinct (map f xs) \<Longrightarrow> x \<in> set xs \<Longrightarrow> length (filter (\<lambda>y. f y = f x) xs) = 1"
proof (induction xs)
  case Nil
  then show ?case by simp
next
  case (Cons a xs)
  show ?case
  proof (cases "f a = f x")
    case True
    from Cons.prems(1) have "f a \<notin> f ` set xs" by simp
    with True have "\<not> (\<exists>y. y \<in> set xs \<and> f y = f x)"
      by (metis imageI)
    then have "filter (\<lambda>y. f y = f x) xs = []"
      by (simp add: filter_empty_conv)
    with True show ?thesis by simp
  next
    case False
    with Cons.prems(2) have "x \<in> set xs" by auto
    moreover from Cons.prems(1) have "distinct (map f xs)" by simp
    ultimately have "length (filter (\<lambda>y. f y = f x) xs) = 1" by (rule Cons.IH [rotated])
    with False show ?thesis by simp
  qed
qed

lemma count_one_exists: "length (filter P xs) = 1 \<Longrightarrow> \<exists>x. x \<in> set xs \<and> P x"
proof (rule ccontr)
  assume one: "length (filter P xs) = 1" and none: "\<not> (\<exists>x. x \<in> set xs \<and> P x)"
  from none have "filter P xs = []" by (simp add: filter_empty_conv)
  with one show False by simp
qed

lemma current_user_member: "current_user st = Some u \<Longrightarrow> u \<in> set (users st)"
  by (auto simp add: current_user_def load_user_def User_query_get_def
      split: option.splits dest: find_Some_member)

lemma refs_current_user:
  assumes "distinct (map u_id (users st))" and "current_user st = Some u"
  shows "refs_one_user st (Some (u_id u))"
proof -
  from assms(2) have "u \<in> set (users st)" by (rule current_user_member)
  with assms(1) have "length (filter (\<lambda>y. u_id y = u_id u) (users st)) = 1"
    by (rule count_one_member)
  then show ?thesis by (simp add: refs_one_user_def count_users_def)
qed

lemma refs_one_user_snoc:
  assumes "refs_one_user st r" and "u_id nu \<notin> u_id ` set (users st)"
  shows "refs_one_user (st\<lparr>users := users st @ [nu]\<rparr>) r"
proof (cases r)
  case None
  with assms(1) show ?thesis by (simp add: refs_one_user_def)
next
  case (Some i)
  with assms(1) have one: "length (filter (\<lambda>u. u_id u = i) (users st)) = 1"
    by (simp add: refs_one_user_def count_users_def)
  then obtain x where "x \<in> set (users st)" and "u_id x = i"
    using count_one_exists [of "\<lambda>u. u_id u = i" "users st"] by blast
  with assms(2) have "u_id nu \<noteq> i" by auto
  with one Some show ?thesis by (simp add: refs_one_user_def count_users_def)
qed

lemma refs_one_user_tables:
  "users st' = users st \<Longrightarrow> refs_one_user st' r = refs_one_user st r"
  by (cases r) (simp_all add: refs_one_user_def count_users_def)

lemma store_ok_flashes: "store_ok (st\<lparr>flashes := x\<rparr>) = store_ok st"
  by (simp add: store_ok_def user_references_ok_def refs_one_user_tables [of "st\<lparr>flashes := x\<rparr>" st])

lemma store_ok_session: "store_ok (st\<lparr>session_user_id := x\<rparr>) = store_ok st"
  by (simp add: store_ok_def user_references_ok_def
      refs_one_user_tables [of "st\<lparr>session_user_id := x\<rparr>" st])

lemma store_ok_add_user:
  assumes "store_ok st" and "u_id nu = next_id (map u_id (users st))"
  shows "store_ok (st\<lparr>users := users st @ [nu]\<rparr>)"
proof -
  have fresh: "u_id nu \<notin> u_id ` set (users st)"
    using next_id_fresh [of "map u_id (users st)"] assms(2) by simp
  from assms(1) have d: "distinct (map u_id (users st))"
    and cs: "list_all (\<lambda>c. refs_one_user st (c_user_id c)) (comments st)"
    and ps: "list_all (\<lambda>p. refs_one_user st (bp_user_id p)) (blog_posts st)"
    by (simp_all add: store_ok_def user_references_ok_def)
  from d fresh have d': "distinct (map u_id (users st @ [nu]))" by simp
  from cs fresh
  have cs': "list_all (\<lambda>c. refs_one_user (st\<lparr>users := users st @ [nu]\<rparr>) (c_user_id c))
               (comments st)"
    by (simp add: list_all_iff refs_one_user_snoc)
  from ps fresh
  have ps': "list_all (\<lambda>p. refs_one_user (st\<lparr>users := users st @ [nu]\<rparr>) (bp_user_id p))
               (blog_posts st)"
    by (simp add: list_all_iff refs_one_user_snoc)
  from d' cs' ps' show ?thesis by (simp add: store_ok_def user_references_ok_def)
qed

lemma store_ok_add_post:
  assumes "store_ok st" and "current_user st = Some u" and "bp_user_id p = Some (u_id u)"
  shows "store_ok (st\<lparr>blog_posts := blog_posts st @ [p]\<rparr>)"
proof -
  from assms(1) have d: "distinct (map u_id (users st))" by (simp add: store_ok_def)
  from d assms(2) have "refs_one_user st (Some (u_id u))" by (rule refs_current_user)
  with assms(1) assms(3) show ?thesis
    by (simp add: store_ok_def user_references_ok_def
        refs_one_user_tables [of "st\<lparr>blog_posts := blog_posts st @ [p]\<rparr>" st])
qed

lemma store_ok_add_comment:
  assumes "store_ok st" and "current_user st = Some u" and "c_user_id c = Some (u_id u)"
  shows "store_ok (st\<lparr>comments := comments st @ [c]\<rparr>)"
proof -
  from assms(1) have d: "distinct (map u_id (users st))" by (simp add: store_ok_def)
  from d assms(2) have "refs_one_user st (Some (u_id u))" by (rule refs_current_user)
  with assms(1) assms(3) show ?thesis
    by (simp add: store_ok_def user_references_ok_def
        refs_one_user_tables [of "st\<lparr>comments := comments st @ [c]\<rparr>" st])
qed

lemma store_ok_delete:
  assumes "store_ok st"
  shows "store_ok (st\<lparr>blog_posts := filter Q (blog_posts st),
                      comments := map (\<lambda>c. if R c then c\<lparr>c_post_id := None\<rparr> else c)
                                    (comments st)\<rparr>)"
proof -
  let ?st' = "st\<lparr>blog_posts := filter Q (blog_posts st),
                comments := map (\<lambda>c. if R c then c\<lparr>c_post_id := None\<rparr> else c)
                              (comments st)\<rparr>"
  have same: "\<And>r. refs_one_user ?st' r = refs_one_user st r"
    by (rule refs_one_user_tables) simp
  from assms show ?thesis
    by (auto simp add: store_ok_def user_references_ok_def same list_all_iff)
qed

lemma register_store_ok: "store_ok st \<Longrightarrow> store_ok (snd (register e m f st))"
  by (auto simp add: register_def add_user_def flash_def login_user_def Let_def
      store_ok_flashes store_ok_session store_ok_add_user split: option.splits)

lemma login_store_ok: "store_ok st \<Longrightarrow> store_ok (snd (login e m f st))"
  by (auto simp add: login_def flash_def login_user_def store_ok_flashes store_ok_session
      split: option.splits)

lemma logout_store_ok: "store_ok st \<Longrightarrow> store_ok (snd (logout st))"
  by (simp add: logout_def logout_user_def store_ok_session)

lemma show_post_store_ok: "store_ok st \<Longrightarrow> store_ok (snd (show_post e pid m f st))"
  by (auto simp add: show_post_def add_comment_def flash_def Let_def store_ok_flashes
      store_ok_add_comment split: option.splits)

lemma add_new_post_store_ok: "store_ok st \<Longrightarrow> store_ok (snd (add_new_post e m f st))"
  by (auto simp add: add_new_post_def admin_only_def add_new_post_fn_def add_blog_post_def
      Let_def store_ok_add_post split: option.splits)

lemma delete_post_store_ok: "store_ok st \<Longrightarrow> store_ok (snd (delete_post pid st))"
  by (auto simp add: delete_post_def admin_only_def delete_post_fn_def delete_blog_post_def
      Let_def store_ok_delete split: option.splits)

lemma handle_store_ok: "store_ok st \<Longrightarrow> store_ok (snd (handle e r st))"
  by (cases r)
     (simp_all add: register_store_ok login_store_ok logout_store_ok show_post_store_ok
        add_new_post_store_ok delete_post_store_ok edit_post_unchanged
        get_all_posts_def about_def contact_def)

lemma run_store_ok: "store_ok st \<Longrightarrow> store_ok (run rs st)"
proof (induction rs arbitrary: st)
  case Nil
  then show ?case by simp
next
  case (Cons a rs)
  obtain e r where a: "a = (e, r)" by (cases a)
  from Cons.prems have "store_ok (snd (handle e r st))" by (rule handle_store_ok)
  then have "store_ok (run rs (snd (handle e r st)))" by (rule Cons.IH)
  with a show ?case by simp
qed

lemma init_store_ok: "store_ok init_state"
  by (simp add: store_ok_def user_references_ok_def init_state_def)

text \<open>
  C9, as the handlers have it. After every sequence of requests from the empty store,
  every stored comment and every stored post references exactly one existing user, and
  user identifiers are distinct. (Nothing is promised about the post a comment
  references.)
\<close>

theorem user_references_invariant:
  "user_references_ok (run rs init_state)
   \<and> distinct (map u_id (users (run rs init_state)))"
  using run_store_ok [OF init_store_ok, of rs] by (simp add: store_ok_def)

theorem user_references_invariant_witness:
  "user_references_ok (run comment_then_delete init_state)
   \<and> distinct (map u_id (users (run comment_then_delete init_state)))
   \<and> comments (run comment_then_delete init_state)
       = [\<lparr>c_id = 1, c_comment = ''hi'', c_user_id = Some 1, c_post_id = None\<rparr>]
   \<and> users (run comment_then_delete init_state) = [ann]"
proof -
  have "run comment_then_delete init_state
          = \<lparr>users = [ann], blog_posts = [],
             comments = [\<lparr>c_id = 1, c_comment = ''hi'', c_user_id = Some 1, c_post_id = None\<rparr>],
             session_user_id = Some 1, flashes = []\<rparr>"
    by (simp add: comment_then_delete_def comment_hi_def example_defs handler_defs
        session_defs db_defs)
  with user_references_invariant [of comment_then_delete] show ?thesis by simp
qed

text \<open>
  C9 as stated fails: Ann registers, posts \<open>T\<close>, comments on it and deletes it. The
  post is gone and its comment is still stored, now with no post: the comment does not
  reference an existing post.
\<close>

theorem referential_integrity_counterexample:
  "blog_posts (run comment_then_delete init_state) = []
   \<and> comments (run comment_then_delete init_state)
       = [\<lparr>c_id = 1, c_comment = ''hi'', c_user_id = Some 1, c_post_id = None\<rparr>]
   \<and> \<not> referential_integrity (run comment_then_delete init_state)"
proof -
  have "run comment_then_delete init_state
          = \<lparr>users = [ann], blog_posts = [],
             comments = [\<lparr>c_id = 1, c_comment = ''hi'', c_user_id = Some 1, c_post_id = None\<rparr>],
             session_user_id = Some 1, flashes = []\<rparr>"
    by (simp add: comment_then_delete_def comment_hi_def example_defs handler_defs
        session_defs db_defs)
  then show ?thesis by (simp add: referential_integrity_def refs_one_post_def)
qed


section \<open>Commenting\<close>

text \<open>
  A logged-in user submits a valid comment on a post page. The page answered lists the
  comments filed under that post so far followed by the new one, which carries the
  user's identifier, the post's identifier and the submitted text; loading the page
  again lists the same comments.
\<close>

theorem comment_ownership:
  assumes "current_user st = Some u" and "validate_comment e form"
  shows "\<exists>c st'.
           handle e (Show_post pid POST form) st
             = (Render (Post_page (BlogPost_query_get st pid)
                         (Comment_filter_by_post_id_all st pid @ [c])), st')
         \<and> c_user_id c = Some (u_id u) \<and> c_post_id c = Some pid
         \<and> c_comment c = cf_comment form
         \<and> users st' = users st \<and> blog_posts st' = blog_posts st
         \<and> Comment_filter_by_post_id_all st' pid = Comment_filter_by_post_id_all st pid @ [c]
         \<and> fst (handle e1 (Show_post pid GET form1) st')
             = Render (Post_page (BlogPost_query_get st pid)
                        (Comment_filter_by_post_id_all st pid @ [c]))"
  using assms
  by (simp add: show_post_def validate_on_submit_def add_comment_def Let_def
      Comment_filter_by_post_id_all_def BlogPost_query_get_def)

theorem comment_ownership_witness:
  "current_user st_posted = Some ann \<and> validate_comment env0 comment_hi
   \<and> (\<exists>c st'.
           handle env0 (Show_post 1 POST comment_hi) st_posted
             = (Render (Post_page (Some post1) [c]), st')
         \<and> c_user_id c = Some 1 \<and> c_post_id c = Some 1 \<and> c_comment c = ''hi''
         \<and> fst (handle env0 (Show_post 1 GET comment_hi) st')
             = Render (Post_page (Some post1) [c]))"
proof -
  have a: "current_user st_posted = Some ann"
    by (simp add: example_defs session_defs db_defs)
  have b: "validate_comment env0 comment_hi" by (simp add: env0_def)
  have g: "BlogPost_query_get st_posted 1 = Some post1"
    by (simp add: example_defs db_defs)
  have n: "Comment_filter_by_post_id_all st_posted 1 = []"
    by (simp add: example_defs db_defs)
  have i: "u_id ann = 1 \<and> cf_comment comment_hi = ''hi''"
    by (simp add: ann_def comment_hi_def)
  from comment_ownership [OF a b, of 1 env0 comment_hi] a b
  show ?thesis unfolding g n using i by auto
qed

end
